theory Spec2Isabelle
  imports Main "HOL-Library.Multiset"
begin

section \<open>Data model of trade.py\<close>

text \<open>
  Python's \<open>str\<close> is a sequence of Unicode code points; item names and the server name
  are Chinese, so a string is a list of code points here, not a list of bytes.
\<close>

type_synonym str = "nat list"

definition ascii :: "string \<Rightarrow> str" where
  "ascii s = map of_char s"

text \<open>
  \<open>str.strip()\<close> with no argument removes leading and trailing white space, that is the
  code points for which \<open>str.isspace()\<close> holds.
\<close>

definition isspace :: "nat \<Rightarrow> bool" where
  "isspace c \<longleftrightarrow>
     (9 \<le> c \<and> c \<le> 13) \<or> (28 \<le> c \<and> c \<le> 32) \<or> c = 133 \<or> c = 160 \<or> c = 5760 \<or>
     (8192 \<le> c \<and> c \<le> 8202) \<or> c = 8232 \<or> c = 8233 \<or> c = 8239 \<or> c = 8287 \<or> c = 12288"

definition strip :: "str \<Rightarrow> str" where
  "strip s = rev (dropWhile isspace (rev (dropWhile isspace s)))"

text \<open>
  One element of \<open>data['entries']\<close> in the history reply. The service reports prices and
  quantities as integers, which Python does not bound; the timestamp is in Unix seconds.
\<close>

record entry =
  timestamp :: int
  pricePerUnit :: int
  quantity :: int
  onMannequin :: bool

text \<open>
  The two keys \<open>daily_revenue\<close> and \<open>total_quantity\<close> occur both in the dictionary that
  \<open>get_market_data\<close> returns and in the dictionary that \<open>fetch_item\<close> builds. The
  field \<open>ident\<close> is the key \<open>'id'\<close> of the latter.
\<close>

record totals =
  daily_revenue :: int
  total_quantity :: int

record market_data = totals +
  entries :: "entry list"

record item = totals +
  ident :: int
  name :: "str option"

record history_json =
  json_entries :: "entry list"

record name_json =
  Name :: "str option"

subsection \<open>The outside world\<close>

text \<open>
  \<open>requests.get\<close> either returns a response, which carries a status code and a body, or
  raises (no connection, time-out); \<open>open\<close> raises on a file that is not there.
  Nothing in trade.py catches an exception.
\<close>

datatype error = RequestException | FileNotFoundError

record 'a response =
  status_code :: int
  json :: 'a

text \<open>
  A naive \<open>datetime\<close> is a count of microseconds on the calendar it is read in.
  \<open>utcnow\<close> is the reading of \<open>datetime.utcnow()\<close>, taken once for the whole run.
  \<open>utcoffset w ts\<close> is the offset from UTC, in seconds, that the machine's local zone
  has at the Unix second \<open>ts\<close>; it changes where the zone moves its clocks.
  \<open>datetime.now()\<close> and \<open>datetime.today()\<close> apply the offset in force at the current
  instant, \<open>datetime.fromtimestamp\<close> the one in force at the stamp it converts. Stamps
  are taken to fall in the years 1 to 9999 that a \<open>datetime\<close> can hold, as the stamps of
  recorded sales do. The replies of the four services are functions of the request, and
  \<open>set_order\<close> is the order in which Python iterates over \<open>set(xs)\<close>, which the language
  leaves open.
\<close>

type_synonym datetime = int

record world =
  utcnow :: datetime
  utcoffset :: "int \<Rightarrow> int"
  universalis_history :: "str \<Rightarrow> int \<Rightarrow> error + history_json response"
  universalis_marketable :: "error + int list response"
  cafemaker_item :: "int \<Rightarrow> error + name_json response"
  xivapi_item :: "int \<Rightarrow> error + name_json response"
  set_order :: "int list \<Rightarrow> int list"

definition timedelta_days :: "int \<Rightarrow> int" where
  "timedelta_days d = d * 86400000000"

definition now :: "world \<Rightarrow> datetime" where
  "now w = utcnow w + utcoffset w (utcnow w div 1000000) * 1000000"

definition fromtimestamp :: "world \<Rightarrow> int \<Rightarrow> datetime" where
  "fromtimestamp w ts = (ts + utcoffset w ts) * 1000000"

text \<open>
  \<open>date.weekday()\<close> counts Monday as 0; 1 January 1970 was a Thursday.
\<close>

definition weekday :: "datetime \<Rightarrow> int" where
  "weekday d = (d div 86400000000 + 3) mod 7"

definition is_Sat :: "world \<Rightarrow> bool" where
  "is_Sat w \<longleftrightarrow> weekday (now w) = 5"

section \<open>Aggregation\<close>

text \<open>
  The \<open>for\<close> loop of \<open>get_market_data\<close> (lines 24 to 28), with the two running sums
  \<open>daily_revenue\<close> and \<open>total_quantity\<close> as the accumulator. It looks at every entry.
\<close>

fun market_loop :: "world \<Rightarrow> datetime \<Rightarrow> entry list \<Rightarrow> int \<times> int \<Rightarrow> int \<times> int" where
  "market_loop w one_day_ago [] (revenue, amount) = (revenue, amount)"
| "market_loop w one_day_ago (entry # rest) (revenue, amount) =
     (if fromtimestamp w (timestamp entry) \<ge> one_day_ago
      then market_loop w one_day_ago rest
             (revenue + pricePerUnit entry * quantity entry, amount + quantity entry)
      else market_loop w one_day_ago rest (revenue, amount))"

definition get_market_data :: "world \<Rightarrow> str \<Rightarrow> int \<Rightarrow> error + market_data option" where
  "get_market_data w server_name item_id =
     (case universalis_history w server_name item_id of
        Inl e \<Rightarrow> Inl e
      | Inr response \<Rightarrow>
          if status_code response = 200 then
            let data = json response;
                market_board_sales = filter (\<lambda>entry. \<not> onMannequin entry) (json_entries data);
                one_day_ago = utcnow w - timedelta_days 1;
                (revenue, amount) = market_loop w one_day_ago market_board_sales (0, 0)
            in Inr (Some \<lparr>daily_revenue = revenue, total_quantity = amount,
                           entries = json_entries data\<rparr>)
          else Inr None)"

text \<open>
  The loop of \<open>calculate_daily_revenue_and_quantity\<close> (lines 102 to 108): the
  \<open>else: break\<close> leaves the loop at the first entry older than a day.
\<close>

fun calculate_loop :: "world \<Rightarrow> datetime \<Rightarrow> entry list \<Rightarrow> int \<times> int \<Rightarrow> int \<times> int" where
  "calculate_loop w one_day_ago [] (revenue, amount) = (revenue, amount)"
| "calculate_loop w one_day_ago (entry # rest) (revenue, amount) =
     (if fromtimestamp w (timestamp entry) \<ge> one_day_ago
      then calculate_loop w one_day_ago rest
             (revenue + quantity entry * pricePerUnit entry, amount + quantity entry)
      else (revenue, amount))"

definition calculate_daily_revenue_and_quantity :: "world \<Rightarrow> entry list \<Rightarrow> int \<times> int" where
  "calculate_daily_revenue_and_quantity w recent_history =
     (let one_day_ago = now w - timedelta_days 1
      in calculate_loop w one_day_ago recent_history (0, 0))"

section \<open>Names\<close>

definition get_item_name_from_xivapi :: "world \<Rightarrow> int \<Rightarrow> error + str option" where
  "get_item_name_from_xivapi w item_id =
     (case xivapi_item w item_id of
        Inl e \<Rightarrow> Inl e
      | Inr response \<Rightarrow>
          if status_code response = 200 then Inr (Name (json response)) else Inr None)"

definition get_item_name_from_cafemaker :: "world \<Rightarrow> int \<Rightarrow> error + str option" where
  "get_item_name_from_cafemaker w item_id =
     (case cafemaker_item w item_id of
        Inl e \<Rightarrow> Inl e
      | Inr response \<Rightarrow>
          if status_code response = 200 then Inr (Name (json response)) else Inr None)"

definition get_item_name :: "world \<Rightarrow> int \<Rightarrow> error + str option" where
  "get_item_name w item_id =
     (case get_item_name_from_cafemaker w item_id of
        Inl e \<Rightarrow> Inl e
      | Inr None \<Rightarrow> get_item_name_from_xivapi w item_id
      | Inr (Some n) \<Rightarrow>
          if strip n = [] then get_item_name_from_xivapi w item_id else Inr (Some n))"

section \<open>Enrichment\<close>

text \<open>
  \<open>if item_data:\<close> tests a dictionary that holds at least the two keys just added, so
  it is true whenever \<open>get_market_data\<close> returned one.
\<close>

definition fetch_item :: "world \<Rightarrow> int \<Rightarrow> str \<Rightarrow> error + item option" where
  "fetch_item w item_id server_name =
     (case get_market_data w server_name item_id of
        Inl e \<Rightarrow> Inl e
      | Inr None \<Rightarrow> Inr None
      | Inr (Some item_data) \<Rightarrow>
          (case get_item_name w item_id of
             Inl e \<Rightarrow> Inl e
           | Inr item_name \<Rightarrow>
               Inr (Some \<lparr>daily_revenue = daily_revenue item_data,
                          total_quantity = total_quantity item_data,
                          ident = item_id, name = item_name\<rparr>)))"

text \<open>
  \<open>list(executor.map(f, item_ids))\<close> yields the results in the order of \<open>item_ids\<close> and
  re-raises the exception of the first task, in that order, that raised.
\<close>

fun executor_map :: "('a \<Rightarrow> error + 'b) \<Rightarrow> 'a list \<Rightarrow> error + 'b list" where
  "executor_map f [] = Inr []"
| "executor_map f (x # xs) =
     (case f x of
        Inl e \<Rightarrow> Inl e
      | Inr y \<Rightarrow> (case executor_map f xs of Inl e \<Rightarrow> Inl e | Inr ys \<Rightarrow> Inr (y # ys)))"

definition get_top_items :: "world \<Rightarrow> str \<Rightarrow> int list \<Rightarrow> error + item list" where
  "get_top_items w server_name item_ids =
     (case executor_map (\<lambda>item_id. fetch_item w item_id server_name) item_ids of
        Inl e \<Rightarrow> Inl e
      | Inr items \<Rightarrow> Inr (concat (map (\<lambda>it. case it of None \<Rightarrow> [] | Some x \<Rightarrow> [x]) items)))"

section \<open>Ranking\<close>

text \<open>
  \<open>sorted(xs, key=k, reverse=True)\<close>: Python's sort is stable also when it is reversed,
  so among items with equal keys the earlier one of \<open>xs\<close> stays in front. The head of
  the list is put in front of the first element of the sorted rest whose key is not
  greater than its own.
\<close>

fun insort_reverse :: "('a \<Rightarrow> int) \<Rightarrow> 'a \<Rightarrow> 'a list \<Rightarrow> 'a list" where
  "insort_reverse key x [] = [x]"
| "insort_reverse key x (y # ys) =
     (if key y \<le> key x then x # y # ys else y # insort_reverse key x ys)"

fun sorted_reverse :: "('a \<Rightarrow> int) \<Rightarrow> 'a list \<Rightarrow> 'a list" where
  "sorted_reverse key [] = []"
| "sorted_reverse key (x # xs) = insort_reverse key x (sorted_reverse key xs)"

section \<open>Files\<close>

text \<open>\<open>str(n)\<close> of an integer, and of a name that may be \<open>None\<close>, as an f-string prints them.\<close>

fun digits :: "nat \<Rightarrow> str" where
  "digits n = (if n < 10 then [48 + n] else digits (n div 10) @ [48 + n mod 10])"

definition str_int :: "int \<Rightarrow> str" where
  "str_int i = (if i < 0 then 45 # digits (nat (- i)) else digits (nat i))"

definition str_name :: "str option \<Rightarrow> str" where
  "str_name n = (case n of None \<Rightarrow> ascii ''None'' | Some s \<Rightarrow> s)"

datatype key = Daily_revenue | Total_quantity

text \<open>
  The text that \<open>save_top_items_to_txt\<close> writes: a header line, then one line for each
  item. The labels are the source's Chinese literals, as code points.
\<close>

definition save_top_items_to_txt :: "item list \<Rightarrow> key \<Rightarrow> str" where
  "save_top_items_to_txt top_items k =
     (case k of
        Daily_revenue \<Rightarrow>
          [26152, 26085, 29483, 23567, 32982, 26381, 21153, 22120, 20132, 26131, 37329, 39069,
           21069, 20108, 21313, 10]
          @ concat (map (\<lambda>it. [29289, 21697, 21517, 31216, 58, 32] @ str_name (name it)
                            @ [32, 45, 32, 20132, 26131, 37329, 39069, 58, 32]
                            @ str_int (daily_revenue it) @ [10]) top_items)
      | Total_quantity \<Rightarrow>
          [26152, 26085, 29483, 23567, 32982, 26381, 21153, 22120, 20132, 26131, 37327,
           21069, 20108, 21313, 10]
          @ concat (map (\<lambda>it. [29289, 21697, 21517, 31216, 58, 32] @ str_name (name it)
                            @ [32, 45, 32, 20132, 26131, 37327, 58, 32]
                            @ str_int (total_quantity it) @ [10]) top_items))"

text \<open>
  The five files of the working directory, each absent or holding what \<open>json.dump\<close> or
  \<open>f.write\<close> put there.
\<close>

record files =
  item_ids_file :: "int list option"
  previous_day_file_revenue :: "item list option"
  previous_day_file_quantity :: "item list option"
  results_file_revenue :: "str option"
  results_file_quantity :: "str option"

definition load_item_ids_from_file :: "'a option \<Rightarrow> error + 'a" where
  "load_item_ids_from_file f = (case f of None \<Rightarrow> Inl FileNotFoundError | Some c \<Rightarrow> Inr c)"

definition get_all_marketable_item_ids :: "world \<Rightarrow> error + int list option" where
  "get_all_marketable_item_ids w =
     (case universalis_marketable w of
        Inl e \<Rightarrow> Inl e
      | Inr response \<Rightarrow>
          if status_code response = 200 then
            let all_item_ids = json response;
                filtered_item_ids = filter (\<lambda>item_id. item_id > 34000) all_item_ids
            in Inr (Some filtered_item_ids)
          else Inr None)"

section \<open>The run\<close>

text \<open>
  How the process ends: it runs to the end of the script, calls \<open>exit\<close>, or dies of an
  exception that nothing caught, which the interpreter turns into exit status 1.
\<close>

datatype outcome = Finished | Exit int | Uncaught error

fun exit_code :: "outcome \<Rightarrow> int" where
  "exit_code Finished = 0"
| "exit_code (Exit n) = n"
| "exit_code (Uncaught e) = 1"

text \<open>What a run did, in order: the calls that go to the network and the files written.\<close>

datatype path =
  Item_ids_file | Previous_day_file_revenue | Previous_day_file_quantity
  | Results_file_revenue | Results_file_quantity

datatype event =
  Call_get_all_marketable_item_ids | Call_get_top_items "int list" | Wrote path

definition server_name :: str where
  "server_name = [29483, 23567, 32982]"

text \<open>
  Lines 150 to 158. \<open>if item_ids:\<close> is false for \<open>None\<close> and for the empty list. The
  message printed before \<open>exit(1)\<close> is left out.
\<close>

definition determine_item_ids ::
  "world \<Rightarrow> files \<Rightarrow> (outcome + int list) \<times> files \<times> event list" where
  "determine_item_ids w fs =
     (if is_Sat w \<or> item_ids_file fs = None then
        (case get_all_marketable_item_ids w of
           Inl e \<Rightarrow> (Inl (Uncaught e), fs, [Call_get_all_marketable_item_ids])
         | Inr item_ids \<Rightarrow>
             if item_ids \<noteq> None \<and> item_ids \<noteq> Some [] then
               (Inr (the item_ids), fs\<lparr>item_ids_file := item_ids\<rparr>,
                [Call_get_all_marketable_item_ids, Wrote Item_ids_file])
             else (Inl (Exit 1), fs, [Call_get_all_marketable_item_ids]))
      else
        (case load_item_ids_from_file (item_ids_file fs) of
           Inl e \<Rightarrow> (Inl (Uncaught e), fs, [])
         | Inr item_ids \<Rightarrow> (Inr item_ids, fs, [])))"

text \<open>Lines 160 to 163.\<close>

definition narrow_item_ids :: "world \<Rightarrow> files \<Rightarrow> int list \<Rightarrow> error + int list" where
  "narrow_item_ids w fs item_ids =
     (if \<not> is_Sat w \<and> (previous_day_file_revenue fs \<noteq> None \<and> previous_day_file_quantity fs \<noteq> None)
      then
        (case load_item_ids_from_file (previous_day_file_revenue fs) of
           Inl e \<Rightarrow> Inl e
         | Inr previous_top_items_revenue \<Rightarrow>
             (case load_item_ids_from_file (previous_day_file_quantity fs) of
                Inl e \<Rightarrow> Inl e
              | Inr previous_top_items_quantity \<Rightarrow>
                  Inr (set_order w (map ident previous_top_items_revenue
                                    @ map ident previous_top_items_quantity))))
      else Inr item_ids)"

text \<open>Lines 167 to 173.\<close>

definition rank_and_report :: "item list \<Rightarrow> files \<Rightarrow> files \<times> event list" where
  "rank_and_report top_items fs =
     (let top_items_revenue = take 50 (sorted_reverse daily_revenue top_items);
          fs1 = fs\<lparr>results_file_revenue :=
                     Some (save_top_items_to_txt (take 20 top_items_revenue) Daily_revenue)\<rparr>;
          fs2 = fs1\<lparr>previous_day_file_revenue := Some top_items_revenue\<rparr>;
          top_items_quantity = take 50 (sorted_reverse total_quantity top_items);
          fs3 = fs2\<lparr>results_file_quantity :=
                      Some (save_top_items_to_txt (take 20 top_items_quantity) Total_quantity)\<rparr>;
          fs4 = fs3\<lparr>previous_day_file_quantity := Some top_items_quantity\<rparr>
      in (fs4, [Wrote Results_file_revenue, Wrote Previous_day_file_revenue,
                Wrote Results_file_quantity, Wrote Previous_day_file_quantity]))"

definition main :: "world \<Rightarrow> files \<Rightarrow> outcome \<times> files \<times> event list" where
  "main w fs =
     (case determine_item_ids w fs of
        (Inl out, fs1, log1) \<Rightarrow> (out, fs1, log1)
      | (Inr item_ids, fs1, log1) \<Rightarrow>
          (case narrow_item_ids w fs1 item_ids of
             Inl e \<Rightarrow> (Uncaught e, fs1, log1)
           | Inr item_ids' \<Rightarrow>
               (case get_top_items w server_name item_ids' of
                  Inl e \<Rightarrow> (Uncaught e, fs1, log1 @ [Call_get_top_items item_ids'])
                | Inr top_items \<Rightarrow>
                    (case rank_and_report top_items fs1 of
                       (fs2, log2) \<Rightarrow>
                         (Finished, fs2, log1 @ [Call_get_top_items item_ids'] @ log2)))))"

section \<open>Notions the properties are stated in\<close>

definition revenue_of :: "entry list \<Rightarrow> int" where
  "revenue_of es = sum_list (map (\<lambda>e. pricePerUnit e * quantity e) es)"

definition quantity_of :: "entry list \<Rightarrow> int" where
  "quantity_of es = sum_list (map quantity es)"

text \<open>The entries that are not flagged as mannequin sales.\<close>

definition off_mannequin :: "entry list \<Rightarrow> entry list" where
  "off_mannequin es = filter (\<lambda>e. \<not> onMannequin e) es"

text \<open>
  An entry is recent at the instant \<open>t\<close> (UTC, in microseconds) when it is stamped no
  earlier than one day before \<open>t\<close>. Nothing bounds the stamp from above.
\<close>

definition recent :: "datetime \<Rightarrow> entry \<Rightarrow> bool" where
  "recent t e \<longleftrightarrow> t - timedelta_days 1 \<le> timestamp e * 1000000"

definition since :: "datetime \<Rightarrow> entry list \<Rightarrow> entry list" where
  "since t es = filter (recent t) es"

definition newest_first :: "entry list \<Rightarrow> bool" where
  "newest_first es = sorted_wrt (\<lambda>a b. timestamp b \<le> timestamp a) es"

text \<open>
  The window as the specification words it, the closed interval from \<open>now - 24h\<close> to
  \<open>now\<close>, and the totals over it.
\<close>

definition within_last_day :: "datetime \<Rightarrow> entry \<Rightarrow> bool" where
  "within_last_day t e \<longleftrightarrow>
     t - timedelta_days 1 \<le> timestamp e * 1000000 \<and> timestamp e * 1000000 \<le> t"

definition spec_totals :: "datetime \<Rightarrow> entry list \<Rightarrow> int \<times> int" where
  "spec_totals t es =
     (revenue_of (filter (within_last_day t) es), quantity_of (filter (within_last_day t) es))"

text \<open>The market fetch of an item succeeds when a reply arrives and its status is 200.\<close>

definition fetch_succeeds :: "world \<Rightarrow> str \<Rightarrow> int \<Rightarrow> bool" where
  "fetch_succeeds w server item_id =
     (case universalis_history w server item_id of
        Inl e \<Rightarrow> False
      | Inr response \<Rightarrow> status_code response = 200)"

text \<open>
  \<open>enriched w server i it\<close>: the item \<open>it\<close> carries the id \<open>i\<close>, the totals that
  \<open>get_market_data\<close> fetched for \<open>i\<close> and the name that \<open>get_item_name\<close> resolved,
  which may be \<open>None\<close>.
\<close>

definition enriched :: "world \<Rightarrow> str \<Rightarrow> int \<Rightarrow> item \<Rightarrow> bool" where
  "enriched w server i it =
     (case get_market_data w server i of
        Inr (Some d) \<Rightarrow>
          (case get_item_name w i of
             Inr n \<Rightarrow> it = \<lparr>daily_revenue = daily_revenue d, total_quantity = total_quantity d,
                             ident = i, name = n\<rparr>
           | Inl e \<Rightarrow> False)
      | _ \<Rightarrow> False)"

text \<open>The catalog fetch fails when the request raises or the reply is not a 200.\<close>

definition catalog_fetch_fails :: "world \<Rightarrow> bool" where
  "catalog_fetch_fails w =
     (case universalis_marketable w of
        Inl e \<Rightarrow> True
      | Inr response \<Rightarrow> status_code response \<noteq> 200)"


definition events :: "outcome \<times> files \<times> event list \<Rightarrow> event list" where
  "events run = snd (snd run)"

definition files_after :: "outcome \<times> files \<times> event list \<Rightarrow> files" where
  "files_after run = fst (snd run)"

subsection \<open>Concrete worlds\<close>

text \<open>
  A machine with no network: every request raises. Its zone keeps the one offset
  \<open>off\<close> all year.
\<close>

definition offline :: "datetime \<Rightarrow> int \<Rightarrow> world" where
  "offline t off =
     \<lparr>utcnow = t, utcoffset = (\<lambda>ts. off),
      universalis_history = (\<lambda>s i. Inl RequestException),
      universalis_marketable = Inl RequestException,
      cafemaker_item = (\<lambda>i. Inl RequestException),
      xivapi_item = (\<lambda>i. Inl RequestException),
      set_order = remdups\<rparr>"

definition reply :: "int \<Rightarrow> 'a \<Rightarrow> error + 'a response" where
  "reply code body = Inr \<lparr>status_code = code, json = body\<rparr>"

definition sale :: "int \<Rightarrow> int \<Rightarrow> int \<Rightarrow> entry" where
  "sale ts price n = \<lparr>timestamp = ts, pricePerUnit = price, quantity = n, onMannequin = False\<rparr>"

definition mannequin_sale :: "int \<Rightarrow> int \<Rightarrow> int \<Rightarrow> entry" where
  "mannequin_sale ts price n =
     \<lparr>timestamp = ts, pricePerUnit = price, quantity = n, onMannequin = True\<rparr>"

text \<open>A world whose history service answers every request with the same entries.\<close>

definition selling :: "datetime \<Rightarrow> int \<Rightarrow> entry list \<Rightarrow> world" where
  "selling t off es =
     (offline t off)\<lparr>universalis_history := (\<lambda>s i. reply 200 \<lparr>json_entries = es\<rparr>)\<rparr>"

text \<open>
  Tuesday 14 November 2023, 22:13:20 UTC, is second 1700000000. The sales used below:
  one an hour before, one thirty hours before, one a minute after.
\<close>

definition tuesday :: datetime where
  "tuesday = 1700000000000000"

definition hour_ago :: entry where
  "hour_ago = sale 1699996400 10 2"

definition thirty_hours_ago :: entry where
  "thirty_hours_ago = sale 1699892000 7 1"

definition minute_ahead :: entry where
  "minute_ahead = sale 1700000060 5 1"

text \<open>
  Item 1 sells and has a Chinese name; item 2 is unknown to the market (404); item 3
  has an empty history and no name at either source.
\<close>

definition shop :: world where
  "shop =
     (offline tuesday 0)
       \<lparr>universalis_history :=
          (\<lambda>s i. if i = 1 then reply 200 \<lparr>json_entries = [hour_ago]\<rparr>
                  else if i = 3 then reply 200 \<lparr>json_entries = []\<rparr>
                  else reply 404 \<lparr>json_entries = []\<rparr>),
        cafemaker_item :=
          (\<lambda>i. if i = 1 then reply 200 \<lparr>Name = Some [38081, 30719]\<rparr>
                else reply 404 \<lparr>Name = None\<rparr>),
        xivapi_item := (\<lambda>i. reply 200 \<lparr>Name = None\<rparr>)\<rparr>"

text \<open>The same, but the connection drops on the request for item 2.\<close>

definition shop_dropping :: world where
  "shop_dropping =
     shop\<lparr>universalis_history :=
            (\<lambda>s i. if i = 2 then Inl RequestException else universalis_history shop s i)\<rparr>"

text \<open>A world in which the two name sources answer every request the same way.\<close>

definition naming :: "error + name_json response \<Rightarrow> error + name_json response \<Rightarrow> world" where
  "naming primary secondary =
     (offline tuesday 0)\<lparr>cafemaker_item := (\<lambda>i. primary), xivapi_item := (\<lambda>i. secondary)\<rparr>"

text \<open>
  A machine in New York, whose clocks went back from UTC-4 to UTC-5 at Unix second
  1699164000 (5 November 2023, 06:00 UTC), read half an hour after the change, and a
  sale stamped twenty-four and a half hours before that reading.
\<close>

definition new_york :: world where
  "new_york =
     (offline 1699165800000000 0)
       \<lparr>utcoffset := (\<lambda>ts. if ts < 1699164000 then - 14400 else - 18000)\<rparr>"

definition before_change :: entry where
  "before_change = sale 1699077600 7 1"

definition plain_item :: "int \<Rightarrow> int \<Rightarrow> int \<Rightarrow> item" where
  "plain_item i revenue amount =
     \<lparr>daily_revenue = revenue, total_quantity = amount, ident = i, name = None\<rparr>"

definition no_files :: files where
  "no_files =
     \<lparr>item_ids_file = None, previous_day_file_revenue = None, previous_day_file_quantity = None,
      results_file_revenue = None, results_file_quantity = None\<rparr>"

text \<open>The files a previous run left: revenue ids 1 and 2, quantity ids 2 and 3.\<close>

definition yesterday :: files where
  "yesterday =
     \<lparr>item_ids_file = Some [40000, 40001],
      previous_day_file_revenue = Some [plain_item 1 9 1, plain_item 2 8 1],
      previous_day_file_quantity = Some [plain_item 2 8 1, plain_item 3 0 0],
      results_file_revenue = None, results_file_quantity = None\<rparr>"

section \<open>The two aggregation loops\<close>

lemma market_loop_sums:
  "market_loop w d es (r, a) =
     (r + revenue_of (filter (\<lambda>e. d \<le> fromtimestamp w (timestamp e)) es),
      a + quantity_of (filter (\<lambda>e. d \<le> fromtimestamp w (timestamp e)) es))"
  by (induction es arbitrary: r a) (simp_all add: revenue_of_def quantity_of_def)

lemma calculate_loop_sums:
  "calculate_loop w d es (r, a) =
     (r + revenue_of (takeWhile (\<lambda>e. d \<le> fromtimestamp w (timestamp e)) es),
      a + quantity_of (takeWhile (\<lambda>e. d \<le> fromtimestamp w (timestamp e)) es))"
  by (induction es arbitrary: r a) (simp_all add: revenue_of_def quantity_of_def mult.commute)

text \<open>
  On a list with the newest entry first, a test that only gets easier as the stamp
  grows holds on a prefix, so stopping at its first failure loses nothing.
\<close>

lemma takeWhile_newest_first:
  assumes "newest_first es" and "\<And>a b. timestamp b \<le> timestamp a \<Longrightarrow> P b \<Longrightarrow> P a"
  shows "takeWhile P es = filter P es"
  using assms(1) unfolding newest_first_def
proof (induction es)
  case Nil
  show ?case by simp
next
  case (Cons e es)
  show ?case
  proof (cases "P e")
    case True
    with Cons show ?thesis by simp
  next
    case False
    have "\<forall>b \<in> set es. \<not> P b"
      using Cons.prems False assms(2) by auto
    then have "filter P es = []" by (simp add: filter_empty_conv)
    with False show ?thesis by simp
  qed
qed

text \<open>
  \<open>calculate_daily_revenue_and_quantity\<close> reads both the clock and the stamps in local
  time, so the offset cancels for a stamp at which it is the same as now;
  \<open>get_market_data\<close> reads the clock in UTC and the stamps in local time, so the offset
  cancels only where it is 0.
\<close>

lemma local_window:
  "utcoffset w (timestamp e) = utcoffset w (utcnow w div 1000000) \<Longrightarrow>
   now w - timedelta_days 1 \<le> fromtimestamp w (timestamp e) \<longleftrightarrow> recent (utcnow w) e"
  by (simp add: now_def fromtimestamp_def recent_def algebra_simps)

lemma mixed_window:
  "utcoffset w = (\<lambda>ts. 0) \<Longrightarrow>
   utcnow w - timedelta_days 1 \<le> fromtimestamp w (timestamp e) \<longleftrightarrow> recent (utcnow w) e"
  by (simp add: fromtimestamp_def recent_def)

lemma calculate_prefix:
  assumes "\<forall>e \<in> set es. utcoffset w (timestamp e) = utcoffset w (utcnow w div 1000000)"
  shows "calculate_daily_revenue_and_quantity w es =
     (revenue_of (takeWhile (recent (utcnow w)) es), quantity_of (takeWhile (recent (utcnow w)) es))"
proof -
  have "takeWhile (\<lambda>e. now w - timedelta_days 1 \<le> fromtimestamp w (timestamp e)) es
        = takeWhile (recent (utcnow w)) es"
    using assms by (intro takeWhile_cong refl) (simp add: local_window)
  then show ?thesis
    by (simp add: calculate_daily_revenue_and_quantity_def calculate_loop_sums)
qed

lemma takeWhile_recent:
  assumes "newest_first es"
  shows "takeWhile (recent t) es = since t es"
  unfolding since_def
  by (rule takeWhile_newest_first [OF assms]) (simp add: recent_def)

lemma get_market_data_200:
  assumes "universalis_history w server item_id = Inr r" and "status_code r = 200"
  shows "get_market_data w server item_id =
     Inr (Some \<lparr>daily_revenue =
                  revenue_of (filter (\<lambda>e. utcnow w - timedelta_days 1 \<le> fromtimestamp w (timestamp e))
                                     (off_mannequin (json_entries (json r)))),
                total_quantity =
                  quantity_of (filter (\<lambda>e. utcnow w - timedelta_days 1 \<le> fromtimestamp w (timestamp e))
                                      (off_mannequin (json_entries (json r)))),
                entries = json_entries (json r)\<rparr>)"
  using assms by (simp add: get_market_data_def market_loop_sums Let_def off_mannequin_def)

text \<open>With the machine on UTC and the newest entry first, the two loops agree.\<close>

lemma loops_agree_on_utc:
  assumes "utcoffset w = (\<lambda>ts. 0)" and "newest_first es"
  shows "calculate_daily_revenue_and_quantity w es
         = market_loop w (utcnow w - timedelta_days 1) es (0, 0)"
  using assms
  by (simp add: calculate_prefix takeWhile_recent market_loop_sums mixed_window since_def)

lemmas example_defs =
  offline_def reply_def sale_def mannequin_sale_def selling_def tuesday_def hour_ago_def
  thirty_hours_ago_def minute_ahead_def

text \<open>
  C1 (amended). When the history request is answered with status 200 and the machine's
  zone is UTC, \<open>get_market_data\<close> leaves the mannequin entries out and returns as
  \<open>daily_revenue\<close> the sum of \<open>pricePerUnit * quantity\<close>, and as \<open>total_quantity\<close> the sum
  of \<open>quantity\<close>, over exactly the remaining entries stamped no earlier than 24 hours
  before the current UTC time, entries stamped after the current time included; when
  there is no such entry, both are 0.
\<close>

theorem get_market_data_day_totals:
  assumes "universalis_history w server item_id = Inr r"
    and "status_code r = 200"
    and "utcoffset w = (\<lambda>ts. 0)"
  shows "get_market_data w server item_id =
           Inr (Some \<lparr>daily_revenue =
                        revenue_of (since (utcnow w) (off_mannequin (json_entries (json r)))),
                      total_quantity =
                        quantity_of (since (utcnow w) (off_mannequin (json_entries (json r)))),
                      entries = json_entries (json r)\<rparr>)
         \<and> (since (utcnow w) (off_mannequin (json_entries (json r))) = [] \<longrightarrow>
              get_market_data w server item_id =
                Inr (Some \<lparr>daily_revenue = 0, total_quantity = 0,
                           entries = json_entries (json r)\<rparr>))"
proof -
  have totals: "get_market_data w server item_id =
      Inr (Some \<lparr>daily_revenue =
                   revenue_of (since (utcnow w) (off_mannequin (json_entries (json r)))),
                 total_quantity =
                   quantity_of (since (utcnow w) (off_mannequin (json_entries (json r)))),
                 entries = json_entries (json r)\<rparr>)"
    using assms by (simp add: get_market_data_200 mixed_window since_def)
  then show ?thesis by (simp add: revenue_of_def quantity_of_def)
qed

theorem get_market_data_day_totals_witness:
  "universalis_history
      (selling tuesday 0 [hour_ago, mannequin_sale 1699996400 100 3, thirty_hours_ago]) server_name 1
     = reply 200 \<lparr>json_entries = [hour_ago, mannequin_sale 1699996400 100 3, thirty_hours_ago]\<rparr>
   \<and> get_market_data
       (selling tuesday 0 [hour_ago, mannequin_sale 1699996400 100 3, thirty_hours_ago]) server_name 1
     = Inr (Some \<lparr>daily_revenue = 20, total_quantity = 2,
                  entries = [hour_ago, mannequin_sale 1699996400 100 3, thirty_hours_ago]\<rparr>)"
  using get_market_data_day_totals
    [of "selling tuesday 0 [hour_ago, mannequin_sale 1699996400 100 3, thirty_hours_ago]"
        server_name 1
        "\<lparr>status_code = 200,
          json = \<lparr>json_entries = [hour_ago, mannequin_sale 1699996400 100 3, thirty_hours_ago]\<rparr>\<rparr>"]
  by (simp add: example_defs since_def recent_def off_mannequin_def revenue_of_def
      quantity_of_def timedelta_days_def)

text \<open>
  C1 as stated fails twice over. On a machine on UTC an entry stamped a minute after the
  current time is counted, though it does not lie in the 24 hours before it. On a machine
  eight hours east of UTC an entry thirty hours old is counted.
\<close>

theorem get_market_data_window_counterexample:
  "get_market_data (selling tuesday 0 [minute_ahead]) server_name 1
     = Inr (Some \<lparr>daily_revenue = 5, total_quantity = 1, entries = [minute_ahead]\<rparr>)
   \<and> spec_totals tuesday (off_mannequin [minute_ahead]) = (0, 0)
   \<and> get_market_data (selling tuesday 28800 [thirty_hours_ago]) server_name 1
     = Inr (Some \<lparr>daily_revenue = 7, total_quantity = 1, entries = [thirty_hours_ago]\<rparr>)
   \<and> spec_totals tuesday (off_mannequin [thirty_hours_ago]) = (0, 0)"
  by (simp add: example_defs get_market_data_def fromtimestamp_def timedelta_days_def
      spec_totals_def within_last_day_def off_mannequin_def revenue_of_def quantity_of_def)

text \<open>
  C3 (amended). Where the local zone has the same offset from UTC at each entry's stamp
  as it has now, \<open>calculate_daily_revenue_and_quantity\<close> sums \<open>pricePerUnit * quantity\<close>
  and \<open>quantity\<close> over the entries in front of the first one stamped earlier than 24
  hours before now. For every such sequence with the newest entry first these are all
  the entries stamped no earlier than 24 hours before now, entries stamped after now
  included. On other orders the entries behind the first old one are not counted.
\<close>

theorem calculate_newest_first:
  assumes "\<forall>e \<in> set es. utcoffset w (timestamp e) = utcoffset w (utcnow w div 1000000)"
  shows "calculate_daily_revenue_and_quantity w es =
           (revenue_of (takeWhile (recent (utcnow w)) es),
            quantity_of (takeWhile (recent (utcnow w)) es))
         \<and> (newest_first es \<longrightarrow>
              calculate_daily_revenue_and_quantity w es =
                (revenue_of (since (utcnow w) es), quantity_of (since (utcnow w) es)))"
  using calculate_prefix [OF assms] by (simp add: takeWhile_recent)

text \<open>
  In New York on Tuesday 14 November 2023 the offset is that of winter at now and at
  each of the three stamps.
\<close>

theorem calculate_newest_first_witness:
  "utcoffset (new_york\<lparr>utcnow := tuesday\<rparr>) (timestamp minute_ahead)
     = utcoffset (new_york\<lparr>utcnow := tuesday\<rparr>) (utcnow (new_york\<lparr>utcnow := tuesday\<rparr>) div 1000000)
   \<and> utcoffset (new_york\<lparr>utcnow := tuesday\<rparr>) (timestamp hour_ago)
     = utcoffset (new_york\<lparr>utcnow := tuesday\<rparr>) (utcnow (new_york\<lparr>utcnow := tuesday\<rparr>) div 1000000)
   \<and> utcoffset (new_york\<lparr>utcnow := tuesday\<rparr>) (timestamp thirty_hours_ago)
     = utcoffset (new_york\<lparr>utcnow := tuesday\<rparr>) (utcnow (new_york\<lparr>utcnow := tuesday\<rparr>) div 1000000)
   \<and> newest_first [minute_ahead, hour_ago, thirty_hours_ago]
   \<and> calculate_daily_revenue_and_quantity (new_york\<lparr>utcnow := tuesday\<rparr>)
       [minute_ahead, hour_ago, thirty_hours_ago] = (25, 3)"
proof -
  let ?w = "new_york\<lparr>utcnow := tuesday\<rparr>"
  have same: "\<forall>e \<in> set [minute_ahead, hour_ago, thirty_hours_ago].
      utcoffset ?w (timestamp e) = utcoffset ?w (utcnow ?w div 1000000)"
    by (simp add: new_york_def example_defs)
  have sorted: "newest_first [minute_ahead, hour_ago, thirty_hours_ago]"
    by (simp add: newest_first_def example_defs)
  have "calculate_daily_revenue_and_quantity ?w [minute_ahead, hour_ago, thirty_hours_ago] = (25, 3)"
    using calculate_newest_first [OF same] sorted
    by (simp add: new_york_def example_defs since_def recent_def revenue_of_def
        quantity_of_def timedelta_days_def)
  with same sorted show ?thesis by simp
qed

text \<open>
  C3 as stated fails: the same two entries give different totals in the two orders, and
  with the old one in front the result is not the sum over the window. An entry stamped
  after now is counted, too. And half an hour after New York's clocks went back, a sale
  twenty-four and a half hours old is counted, because the local reading of its stamp
  is in summer time and that of now in winter time.
\<close>

theorem calculate_order_counterexample:
  "calculate_daily_revenue_and_quantity (offline tuesday 0) [thirty_hours_ago, hour_ago] = (0, 0)
   \<and> calculate_daily_revenue_and_quantity (offline tuesday 0) [hour_ago, thirty_hours_ago] = (20, 2)
   \<and> spec_totals tuesday [thirty_hours_ago, hour_ago] = (20, 2)
   \<and> calculate_daily_revenue_and_quantity (offline tuesday 0) [minute_ahead] = (5, 1)
   \<and> spec_totals tuesday [minute_ahead] = (0, 0)
   \<and> calculate_daily_revenue_and_quantity new_york [before_change] = (7, 1)
   \<and> spec_totals (utcnow new_york) [before_change] = (0, 0)"
  by (simp add: example_defs new_york_def before_change_def
      calculate_daily_revenue_and_quantity_def now_def fromtimestamp_def
      timedelta_days_def spec_totals_def within_last_day_def revenue_of_def quantity_of_def)

text \<open>
  C4 fails on a machine that is not on UTC. Eight hours east of UTC, on the one-entry
  list holding a sale thirty hours old, which is sorted, the loop of
  \<open>calculate_daily_revenue_and_quantity\<close> counts nothing and the loop of
  \<open>get_market_data\<close> counts the sale.
\<close>

theorem loops_differ_off_utc:
  "newest_first [thirty_hours_ago]
   \<and> calculate_daily_revenue_and_quantity (selling tuesday 28800 [thirty_hours_ago])
       [thirty_hours_ago] = (0, 0)
   \<and> market_loop (selling tuesday 28800 [thirty_hours_ago])
       (utcnow (selling tuesday 28800 [thirty_hours_ago]) - timedelta_days 1)
       [thirty_hours_ago] (0, 0) = (7, 1)
   \<and> get_market_data (selling tuesday 28800 [thirty_hours_ago]) server_name 1
     = Inr (Some \<lparr>daily_revenue = 7, total_quantity = 1, entries = [thirty_hours_ago]\<rparr>)"
  by (simp add: example_defs newest_first_def calculate_daily_revenue_and_quantity_def now_def
      get_market_data_def fromtimestamp_def timedelta_days_def)

section \<open>Name resolution\<close>

text \<open>
  C5 (amended). \<open>get_item_name\<close> returns the primary (cafemaker) source's name whenever
  that name holds something other than white space; when the primary source yields no
  name, an empty one or one of white space only, it returns exactly what the secondary
  (xivapi) source yields, null and the empty string included, and raises if that
  request raises; when the primary request raises, it raises.
\<close>

theorem get_item_name_fallback:
  "(get_item_name_from_cafemaker w i = Inr (Some n) \<and> strip n \<noteq> [] \<longrightarrow>
      get_item_name w i = Inr (Some n))
   \<and> (get_item_name_from_cafemaker w i = Inr None
        \<or> (get_item_name_from_cafemaker w i = Inr (Some n) \<and> strip n = []) \<longrightarrow>
      get_item_name w i = get_item_name_from_xivapi w i)
   \<and> (get_item_name_from_cafemaker w i = Inl e \<longrightarrow> get_item_name w i = Inl e)"
  by (auto simp: get_item_name_def)

lemmas name_defs =
  get_item_name_from_cafemaker_def get_item_name_from_xivapi_def naming_def offline_def reply_def

theorem get_item_name_fallback_witness:
  "get_item_name_from_cafemaker
      (naming (reply 200 \<lparr>Name = Some []\<rparr>) (reply 200 \<lparr>Name = Some (ascii ''Iron Ore'')\<rparr>)) 1
     = Inr (Some [])
   \<and> get_item_name
       (naming (reply 200 \<lparr>Name = Some []\<rparr>) (reply 200 \<lparr>Name = Some (ascii ''Iron Ore'')\<rparr>)) 1
     = Inr (Some (ascii ''Iron Ore''))
   \<and> (\<forall>secondary.
        get_item_name (naming (reply 200 \<lparr>Name = Some [38081, 30719]\<rparr>) secondary) 1
          = Inr (Some [38081, 30719]))
   \<and> get_item_name (naming (reply 404 \<lparr>Name = None\<rparr>) (reply 200 \<lparr>Name = None\<rparr>)) 1 = Inr None
   \<and> get_item_name (naming (Inl RequestException) (reply 200 \<lparr>Name = None\<rparr>)) 1
     = Inl RequestException"
proof (intro conjI allI)
  let ?w = "naming (reply 200 \<lparr>Name = Some []\<rparr>) (reply 200 \<lparr>Name = Some (ascii ''Iron Ore'')\<rparr>)"
  show empty: "get_item_name_from_cafemaker ?w 1 = Inr (Some [])"
    by (simp add: name_defs)
  show "get_item_name ?w 1 = Inr (Some (ascii ''Iron Ore''))"
    using get_item_name_fallback [of ?w 1 "[]"] empty
    by (simp add: name_defs strip_def)
next
  fix secondary
  show "get_item_name (naming (reply 200 \<lparr>Name = Some [38081, 30719]\<rparr>) secondary) 1
        = Inr (Some [38081, 30719])"
    using get_item_name_fallback
      [of "naming (reply 200 \<lparr>Name = Some [38081, 30719]\<rparr>) secondary" 1 "[38081, 30719]"]
    by (simp add: name_defs strip_def isspace_def)
next
  show "get_item_name (naming (reply 404 \<lparr>Name = None\<rparr>) (reply 200 \<lparr>Name = None\<rparr>)) 1 = Inr None"
    using get_item_name_fallback
      [of "naming (reply 404 \<lparr>Name = None\<rparr>) (reply 200 \<lparr>Name = None\<rparr>)" 1]
    by (simp add: name_defs)
next
  show "get_item_name (naming (Inl RequestException) (reply 200 \<lparr>Name = None\<rparr>)) 1
        = Inl RequestException"
    using get_item_name_fallback
      [of "naming (Inl RequestException) (reply 200 \<lparr>Name = None\<rparr>)" 1 _ RequestException]
    by (simp add: name_defs)
qed

text \<open>
  C5 as stated fails: a primary name of one space is not empty, yet the secondary
  source's name is returned; and when the primary request raises, so does
  \<open>get_item_name\<close>.
\<close>

theorem get_item_name_counterexample:
  "get_item_name
      (naming (reply 200 \<lparr>Name = Some [32]\<rparr>) (reply 200 \<lparr>Name = Some [73, 114, 111, 110]\<rparr>)) 1
     = Inr (Some [73, 114, 111, 110])
   \<and> get_item_name (naming (Inl RequestException) (reply 200 \<lparr>Name = Some [73, 114, 111, 110]\<rparr>)) 1
     = Inl RequestException"
  by (simp add: get_item_name_def name_defs strip_def isspace_def)

section \<open>What the pipeline returns\<close>

lemma get_market_data_Some_iff:
  "(\<exists>d. get_market_data w server i = Inr (Some d)) \<longleftrightarrow> fetch_succeeds w server i"
  by (auto simp: get_market_data_def fetch_succeeds_def Let_def split: sum.splits prod.splits)

lemma fetch_item_None:
  "fetch_item w i server = Inr None \<Longrightarrow> \<not> fetch_succeeds w server i"
  using get_market_data_Some_iff [of w server i]
  by (auto simp: fetch_item_def split: sum.splits option.splits)

lemma fetch_item_Some:
  "fetch_item w i server = Inr (Some it) \<Longrightarrow> fetch_succeeds w server i \<and> enriched w server i it"
  using get_market_data_Some_iff [of w server i]
  by (auto simp: fetch_item_def enriched_def split: sum.splits option.splits)

text \<open>A task raises when its history request does, or when the name lookup after a 200 does.\<close>

lemma fetch_item_raises_iff:
  "isl (fetch_item w i server) \<longleftrightarrow>
     isl (universalis_history w server i) \<or> fetch_succeeds w server i \<and> isl (get_item_name w i)"
  by (auto simp: fetch_item_def get_market_data_def fetch_succeeds_def Let_def
      split: sum.splits option.splits prod.splits if_splits)

lemma executor_map_returns:
  "\<forall>x \<in> set xs. \<not> isl (f x) \<Longrightarrow>
   \<exists>ys. executor_map f xs = Inr ys \<and> list_all2 (\<lambda>x y. f x = Inr y) xs ys"
proof (induction xs)
  case Nil
  show ?case by simp
next
  case (Cons x xs)
  then obtain ys where ys: "executor_map f xs = Inr ys" "list_all2 (\<lambda>x y. f x = Inr y) xs ys"
    by auto
  from Cons.prems obtain y where y: "f x = Inr y"
    by (cases "f x") auto
  from ys y show ?case by simp
qed

lemma executor_map_raises:
  "x \<in> set xs \<Longrightarrow> isl (f x) \<Longrightarrow> isl (executor_map f xs)"
proof (induction xs)
  case Nil
  then show ?case by simp
next
  case (Cons a xs)
  show ?case
  proof (cases "f a")
    case (Inl e)
    then show ?thesis by simp
  next
    case (Inr y)
    with Cons have "x \<in> set xs" by auto
    with Cons have "isl (executor_map f xs)" by simp
    with Inr show ?thesis by (cases "executor_map f xs") simp_all
  qed
qed

lemma list_all2_partner:
  "list_all2 R xs ys \<Longrightarrow> x \<in> set xs \<Longrightarrow> \<exists>y \<in> set ys. R x y"
  by (induction rule: list_all2_induct) auto

lemma kept_items_enriched:
  "list_all2 (\<lambda>i y. fetch_item w i server = Inr y) ids ys \<Longrightarrow>
   list_all2 (enriched w server) (filter (fetch_succeeds w server) ids)
     (concat (map (\<lambda>it. case it of None \<Rightarrow> [] | Some x \<Rightarrow> [x]) ys))"
proof (induction rule: list_all2_induct)
  case Nil
  show ?case by simp
next
  case (Cons i ids y ys)
  show ?case
  proof (cases y)
    case None
    with Cons show ?thesis by (simp add: fetch_item_None)
  next
    case (Some it)
    with Cons show ?thesis by (simp add: fetch_item_Some)
  qed
qed

text \<open>If the request of one task raises, the whole pipeline raises.\<close>

lemma get_top_items_raises:
  "i \<in> set ids \<Longrightarrow> isl (fetch_item w i server) \<Longrightarrow> isl (get_top_items w server ids)"
  using executor_map_raises [of i ids "\<lambda>item_id. fetch_item w item_id server"]
  by (auto simp: get_top_items_def split: sum.splits)

text \<open>
  C2 (amended). For every list of item ids on which no task's request raises, the
  pipeline returns, in the order of the input, exactly one item for each id whose
  market fetch was answered with status 200 and nothing for an id whose fetch was
  answered with another status; an id whose fetch succeeds and whose name resolution
  yields null is in the output with a null name and the fetched totals.
\<close>

theorem get_top_items_keeps_successes:
  assumes "\<forall>i \<in> set ids. \<not> isl (fetch_item w i server)"
  shows "\<exists>out. get_top_items w server ids = Inr out
           \<and> list_all2 (enriched w server) (filter (fetch_succeeds w server) ids) out
           \<and> (\<forall>i \<in> set ids. \<forall>d. get_market_data w server i = Inr (Some d)
                  \<and> get_item_name w i = Inr None \<longrightarrow>
                \<lparr>daily_revenue = daily_revenue d, total_quantity = total_quantity d,
                 ident = i, name = None\<rparr> \<in> set out)"
proof -
  from executor_map_returns [of ids "\<lambda>item_id. fetch_item w item_id server"] assms
  obtain ys where ys: "executor_map (\<lambda>item_id. fetch_item w item_id server) ids = Inr ys"
    "list_all2 (\<lambda>i y. fetch_item w i server = Inr y) ids ys"
    by auto
  let ?out = "concat (map (\<lambda>it. case it of None \<Rightarrow> [] | Some x \<Rightarrow> [x]) ys)"
  have returned: "get_top_items w server ids = Inr ?out"
    using ys(1) by (simp add: get_top_items_def)
  have paired: "list_all2 (enriched w server) (filter (fetch_succeeds w server) ids) ?out"
    by (rule kept_items_enriched [OF ys(2)])
  have nameless: "\<lparr>daily_revenue = daily_revenue d, total_quantity = total_quantity d,
                   ident = i, name = None\<rparr> \<in> set ?out"
    if "i \<in> set ids" and "get_market_data w server i = Inr (Some d)"
      and "get_item_name w i = Inr None" for i d
  proof -
    have "fetch_succeeds w server i"
      using that(2) get_market_data_Some_iff by blast
    with that(1) have "i \<in> set (filter (fetch_succeeds w server) ids)" by simp
    then obtain it where "it \<in> set ?out" "enriched w server i it"
      using list_all2_partner [OF paired] by blast
    then show ?thesis using that(2,3) by (simp add: enriched_def)
  qed
  from returned paired nameless show ?thesis by blast
qed

lemmas shop_defs =
  shop_def shop_dropping_def offline_def reply_def sale_def tuesday_def hour_ago_def
  server_name_def fetch_item_def get_market_data_def get_item_name_def
  get_item_name_from_cafemaker_def get_item_name_from_xivapi_def fromtimestamp_def
  timedelta_days_def strip_def isspace_def

theorem get_top_items_keeps_successes_witness:
  "\<not> isl (fetch_item shop 1 server_name)
   \<and> \<not> isl (fetch_item shop 2 server_name)
   \<and> \<not> isl (fetch_item shop 3 server_name)
   \<and> fetch_succeeds shop server_name 1
   \<and> \<not> fetch_succeeds shop server_name 2
   \<and> fetch_succeeds shop server_name 3
   \<and> get_item_name shop 3 = Inr None
   \<and> get_top_items shop server_name [1, 2, 3]
     = Inr [\<lparr>daily_revenue = 20, total_quantity = 2, ident = 1, name = Some [38081, 30719]\<rparr>,
            \<lparr>daily_revenue = 0, total_quantity = 0, ident = 3, name = None\<rparr>]"
proof -
  have quiet: "\<forall>i \<in> set [1, 2, 3]. \<not> isl (fetch_item shop i server_name)"
    by (simp add: shop_defs)
  have "get_top_items shop server_name [1, 2, 3]
     = Inr [\<lparr>daily_revenue = 20, total_quantity = 2, ident = 1, name = Some [38081, 30719]\<rparr>,
            \<lparr>daily_revenue = 0, total_quantity = 0, ident = 3, name = None\<rparr>]"
    using get_top_items_keeps_successes [OF quiet]
    by (simp add: get_top_items_def shop_defs)
  with quiet show ?thesis by (simp add: fetch_succeeds_def shop_defs)
qed

text \<open>
  C2 as stated fails: the fetch of item 1 succeeds, the connection drops on item 2, and
  the pipeline raises instead of returning the item for 1.
\<close>

theorem get_top_items_counterexample:
  "fetch_succeeds shop_dropping server_name 1
   \<and> get_top_items shop_dropping server_name [1, 2] = Inl RequestException"
  by (simp add: fetch_succeeds_def get_top_items_def shop_defs)

section \<open>The ranking sort\<close>

lemma mset_insort_reverse: "mset (insort_reverse key x xs) = add_mset x (mset xs)"
  by (induction xs) simp_all

lemma set_insort_reverse: "set (insort_reverse key x xs) = insert x (set xs)"
  by (induction xs) auto

lemma descending_insort_reverse:
  "sorted_wrt (\<lambda>a b. key b \<le> key a) xs \<Longrightarrow>
   sorted_wrt (\<lambda>a b. key b \<le> key a) (insort_reverse key x xs)"
  by (induction xs) (auto simp: set_insort_reverse)

lemma descending_sorted_reverse: "sorted_wrt (\<lambda>a b. key b \<le> key a) (sorted_reverse key xs)"
  by (induction xs) (simp_all add: descending_insort_reverse)

lemma mset_sorted_reverse: "mset (sorted_reverse key xs) = mset xs"
  by (induction xs) (simp_all add: mset_insort_reverse)

text \<open>
  Inserting an item with another key leaves the run of key \<open>k\<close> alone; inserting one
  with key \<open>k\<close> puts it in front of that run.
\<close>

lemma filter_insort_reverse_other:
  "key x \<noteq> k \<Longrightarrow>
   filter (\<lambda>y. key y = k) (insort_reverse key x xs) = filter (\<lambda>y. key y = k) xs"
  by (induction xs) simp_all

lemma filter_insort_reverse_same:
  "sorted_wrt (\<lambda>a b. key b \<le> key a) xs \<Longrightarrow>
   filter (\<lambda>y. key y = key x) (insort_reverse key x xs) = x # filter (\<lambda>y. key y = key x) xs"
  by (induction xs) auto

lemma stable_sorted_reverse:
  "filter (\<lambda>y. key y = k) (sorted_reverse key xs) = filter (\<lambda>y. key y = k) xs"
proof (induction xs)
  case Nil
  show ?case by simp
next
  case (Cons x xs)
  show ?case
  proof (cases "key x = k")
    case True
    have "filter (\<lambda>y. key y = key x) (insort_reverse key x (sorted_reverse key xs))
          = x # filter (\<lambda>y. key y = key x) (sorted_reverse key xs)"
      by (rule filter_insort_reverse_same [OF descending_sorted_reverse])
    with True Cons.IH show ?thesis by simp
  next
    case False
    with Cons.IH show ?thesis by (simp add: filter_insort_reverse_other)
  qed
qed

lemma rank_and_report_files:
  "fst (rank_and_report items fs) =
     fs\<lparr>results_file_revenue :=
          Some (save_top_items_to_txt (take 20 (sorted_reverse daily_revenue items)) Daily_revenue),
        previous_day_file_revenue := Some (take 50 (sorted_reverse daily_revenue items)),
        results_file_quantity :=
          Some (save_top_items_to_txt (take 20 (sorted_reverse total_quantity items)) Total_quantity),
        previous_day_file_quantity := Some (take 50 (sorted_reverse total_quantity items))\<rparr>"
  by (simp add: rank_and_report_def Let_def)

text \<open>
  C6. The sort that ranks the items rearranges them (same items, same multiplicities),
  leaves them descending by the metric, and keeps items of equal metric in their input
  order. The carry-forward files hold the first 50 of the sorted lists and the reports
  are written from the first 20. Items with revenues 5, 5, 3, 10 rank as the fourth,
  the first, the second, the third.
\<close>

theorem ranking_descending_stable:
  "mset (sorted_reverse key xs) = mset xs
   \<and> sorted_wrt (\<lambda>a b. key b \<le> key a) (sorted_reverse key xs)
   \<and> (\<forall>k. filter (\<lambda>x. key x = k) (sorted_reverse key xs) = filter (\<lambda>x. key x = k) xs)
   \<and> previous_day_file_revenue (fst (rank_and_report items fs))
       = Some (take 50 (sorted_reverse daily_revenue items))
   \<and> previous_day_file_quantity (fst (rank_and_report items fs))
       = Some (take 50 (sorted_reverse total_quantity items))
   \<and> results_file_revenue (fst (rank_and_report items fs))
       = Some (save_top_items_to_txt (take 20 (sorted_reverse daily_revenue items)) Daily_revenue)
   \<and> results_file_quantity (fst (rank_and_report items fs))
       = Some (save_top_items_to_txt (take 20 (sorted_reverse total_quantity items)) Total_quantity)
   \<and> sorted_reverse daily_revenue
        [plain_item 1 5 0, plain_item 2 5 0, plain_item 3 3 0, plain_item 4 10 0]
       = [plain_item 4 10 0, plain_item 1 5 0, plain_item 2 5 0, plain_item 3 3 0]"
  by (simp add: mset_sorted_reverse descending_sorted_reverse stable_sorted_reverse
      rank_and_report_files plain_item_def)

section \<open>What a run does\<close>

subsection \<open>Lines 150 to 158: which ids to start from\<close>


lemma determine_item_ids_raises:
  "is_Sat w \<or> item_ids_file fs = None \<Longrightarrow> universalis_marketable w = Inl e \<Longrightarrow>
   determine_item_ids w fs = (Inl (Uncaught e), fs, [Call_get_all_marketable_item_ids])"
  by (auto simp: determine_item_ids_def get_all_marketable_item_ids_def)

lemma determine_item_ids_unusable:
  "is_Sat w \<or> item_ids_file fs = None \<Longrightarrow> universalis_marketable w = Inr r \<Longrightarrow>
   status_code r \<noteq> 200 \<or> filter (\<lambda>i. i > 34000) (json r) = [] \<Longrightarrow>
   determine_item_ids w fs = (Inl (Exit 1), fs, [Call_get_all_marketable_item_ids])"
  by (auto simp: determine_item_ids_def get_all_marketable_item_ids_def Let_def)

lemma determine_item_ids_usable:
  "is_Sat w \<or> item_ids_file fs = None \<Longrightarrow> universalis_marketable w = Inr r \<Longrightarrow>
   status_code r = 200 \<Longrightarrow> filter (\<lambda>i. i > 34000) (json r) \<noteq> [] \<Longrightarrow>
   determine_item_ids w fs =
     (Inr (filter (\<lambda>i. i > 34000) (json r)),
      fs\<lparr>item_ids_file := Some (filter (\<lambda>i. i > 34000) (json r))\<rparr>,
      [Call_get_all_marketable_item_ids, Wrote Item_ids_file])"
  by (auto simp: determine_item_ids_def get_all_marketable_item_ids_def Let_def)

subsection \<open>Lines 160 to 173\<close>

lemma narrow_item_ids_returns:
  "narrow_item_ids w fs item_ids =
     Inr (if \<not> is_Sat w \<and> previous_day_file_revenue fs \<noteq> None
             \<and> previous_day_file_quantity fs \<noteq> None
          then set_order w (map ident (the (previous_day_file_revenue fs))
                            @ map ident (the (previous_day_file_quantity fs)))
          else item_ids)"
  by (auto simp: narrow_item_ids_def load_item_ids_from_file_def)

lemma rank_and_report_events:
  "snd (rank_and_report items fs) =
     [Wrote Results_file_revenue, Wrote Previous_day_file_revenue,
      Wrote Results_file_quantity, Wrote Previous_day_file_quantity]"
  by (simp add: rank_and_report_def Let_def)

text \<open>
  Once the ids to start from are there, the run calls \<open>get_top_items\<close> exactly once, on
  the narrowed ids, and nothing after that call touches the cache file.
\<close>

lemma main_after_determine:
  assumes "determine_item_ids w fs = (Inr item_ids, fs1, log1)"
    and "narrow_item_ids w fs1 item_ids = Inr working"
  shows "\<exists>rest. events (main w fs) = log1 @ Call_get_top_items working # rest
           \<and> set rest \<subseteq> {Wrote Results_file_revenue, Wrote Previous_day_file_revenue,
                           Wrote Results_file_quantity, Wrote Previous_day_file_quantity}
           \<and> item_ids_file (files_after (main w fs)) = item_ids_file fs1"
proof (cases "get_top_items w server_name working")
  case (Inl e)
  with assms show ?thesis by (simp add: main_def events_def files_after_def)
next
  case (Inr top_items)
  obtain fs2 log2 where ranked: "rank_and_report top_items fs1 = (fs2, log2)"
    by (cases "rank_and_report top_items fs1")
  from ranked have "fs2 = fst (rank_and_report top_items fs1)"
    and "log2 = snd (rank_and_report top_items fs1)"
    by simp_all
  then have "item_ids_file fs2 = item_ids_file fs1"
    and "log2 = [Wrote Results_file_revenue, Wrote Previous_day_file_revenue,
                 Wrote Results_file_quantity, Wrote Previous_day_file_quantity]"
    by (simp_all add: rank_and_report_files rank_and_report_events)
  with assms Inr ranked show ?thesis
    by (simp add: main_def events_def files_after_def)
qed

lemma main_aborts:
  "determine_item_ids w fs = (Inl out, fs1, log1) \<Longrightarrow> main w fs = (out, fs1, log1)"
  by (simp add: main_def)


lemmas run_defs =
  main_def determine_item_ids_def narrow_item_ids_def load_item_ids_from_file_def
  get_all_marketable_item_ids_def is_Sat_def weekday_def now_def events_def files_after_def
  yesterday_def no_files_def plain_item_def


text \<open>
  C8. When the catalog fetch is required (refresh day, or no cached id list) and fails
  (the request raises, or the reply is not a 200), the run ends with exit status 1, the
  only thing it has done is the catalog request, so no call of \<open>get_top_items\<close> and no
  write, and the files are as they were.
\<close>

theorem catalog_failure_aborts:
  assumes "is_Sat w \<or> item_ids_file fs = None" and "catalog_fetch_fails w"
  shows "\<exists>out. main w fs = (out, fs, [Call_get_all_marketable_item_ids])
           \<and> exit_code out = 1 \<and> exit_code out \<noteq> 0"
proof (cases "universalis_marketable w")
  case (Inl e)
  with assms(1) have "main w fs = (Uncaught e, fs, [Call_get_all_marketable_item_ids])"
    by (simp add: main_aborts determine_item_ids_raises)
  then show ?thesis by simp
next
  case (Inr r)
  with assms(2) have "status_code r \<noteq> 200"
    by (simp add: catalog_fetch_fails_def)
  with assms(1) Inr have "main w fs = (Exit 1, fs, [Call_get_all_marketable_item_ids])"
    by (simp add: main_aborts determine_item_ids_unusable)
  then show ?thesis by simp
qed

theorem catalog_failure_aborts_witness:
  "(is_Sat (offline tuesday 0) \<or> item_ids_file no_files = None)
   \<and> catalog_fetch_fails (offline tuesday 0)
   \<and> main (offline tuesday 0) no_files
     = (Uncaught RequestException, no_files, [Call_get_all_marketable_item_ids])
   \<and> (is_Sat (shop\<lparr>utcnow := 1700345600000000, universalis_marketable := reply 503 []\<rparr>)
        \<or> item_ids_file yesterday = None)
   \<and> catalog_fetch_fails (shop\<lparr>utcnow := 1700345600000000, universalis_marketable := reply 503 []\<rparr>)
   \<and> main (shop\<lparr>utcnow := 1700345600000000, universalis_marketable := reply 503 []\<rparr>) yesterday
     = (Exit 1, yesterday, [Call_get_all_marketable_item_ids])"
proof -
  let ?saturday = "shop\<lparr>utcnow := 1700345600000000, universalis_marketable := reply 503 []\<rparr>"
  have a1: "is_Sat (offline tuesday 0) \<or> item_ids_file no_files = None"
    by (simp add: no_files_def)
  have a2: "catalog_fetch_fails (offline tuesday 0)"
    by (simp add: catalog_fetch_fails_def offline_def)
  have b1: "is_Sat ?saturday \<or> item_ids_file yesterday = None"
    by (simp add: shop_defs run_defs)
  have b2: "catalog_fetch_fails ?saturday"
    by (simp add: catalog_fetch_fails_def reply_def)
  have "main (offline tuesday 0) no_files
        = (Uncaught RequestException, no_files, [Call_get_all_marketable_item_ids])"
    using catalog_failure_aborts [OF a1 a2]
    by (simp add: main_def determine_item_ids_def get_all_marketable_item_ids_def offline_def
        no_files_def)
  moreover have "main ?saturday yesterday = (Exit 1, yesterday, [Call_get_all_marketable_item_ids])"
    using catalog_failure_aborts [OF b1 b2] b1
    by (auto simp: main_def determine_item_ids_def get_all_marketable_item_ids_def reply_def
        yesterday_def)
  ultimately show ?thesis using a1 a2 b1 b2 by simp
qed

text \<open>
  C10. When the catalog is asked for (refresh day, or no cached id list) and a reply
  arrives, the run ends with exit status 1, having written nothing, both when the reply
  is not a 200 and when it is one but no id in it is above 34000; the cache file is
  written exactly when the reply is a 200 and the list of ids above 34000 is not empty,
  and then it holds that list.
\<close>

theorem unusable_catalog_exits:
  assumes "is_Sat w \<or> item_ids_file fs = None" and "universalis_marketable w = Inr r"
  shows "(status_code r \<noteq> 200 \<or> filter (\<lambda>i. i > 34000) (json r) = [] \<longrightarrow>
            main w fs = (Exit 1, fs, [Call_get_all_marketable_item_ids])
            \<and> exit_code (fst (main w fs)) = 1)
         \<and> (Wrote Item_ids_file \<in> set (events (main w fs)) \<longleftrightarrow>
              status_code r = 200 \<and> filter (\<lambda>i. i > 34000) (json r) \<noteq> [])
         \<and> (status_code r = 200 \<and> filter (\<lambda>i. i > 34000) (json r) \<noteq> [] \<longrightarrow>
              item_ids_file (files_after (main w fs)) = Some (filter (\<lambda>i. i > 34000) (json r)))"
proof (cases "status_code r = 200 \<and> filter (\<lambda>i. i > 34000) (json r) \<noteq> []")
  case False
  with assms have "main w fs = (Exit 1, fs, [Call_get_all_marketable_item_ids])"
    by (simp add: main_aborts determine_item_ids_unusable)
  with False show ?thesis by (auto simp: events_def)
next
  case True
  let ?ids = "filter (\<lambda>i. i > 34000) (json r)"
  have start: "determine_item_ids w fs =
      (Inr ?ids, fs\<lparr>item_ids_file := Some ?ids\<rparr>,
       [Call_get_all_marketable_item_ids, Wrote Item_ids_file])"
    using assms True by (simp add: determine_item_ids_usable)
  obtain working where "narrow_item_ids w (fs\<lparr>item_ids_file := Some ?ids\<rparr>) ?ids = Inr working"
    by (simp add: narrow_item_ids_returns)
  from main_after_determine [OF start this] True show ?thesis by auto
qed

theorem unusable_catalog_exits_witness:
  "(is_Sat (shop\<lparr>universalis_marketable := reply 200 [100, 34000]\<rparr>) \<or> item_ids_file no_files = None)
   \<and> universalis_marketable (shop\<lparr>universalis_marketable := reply 200 [100, 34000]\<rparr>)
     = reply 200 [100, 34000]
   \<and> main (shop\<lparr>universalis_marketable := reply 200 [100, 34000]\<rparr>) no_files
     = (Exit 1, no_files, [Call_get_all_marketable_item_ids])
   \<and> (is_Sat (shop\<lparr>universalis_marketable := reply 200 [100, 34001, 3]\<rparr>) \<or> item_ids_file no_files = None)
   \<and> Wrote Item_ids_file \<in> set (events (main (shop\<lparr>universalis_marketable := reply 200 [100, 34001, 3]\<rparr>) no_files))
   \<and> item_ids_file (files_after (main (shop\<lparr>universalis_marketable := reply 200 [100, 34001, 3]\<rparr>) no_files))
     = Some [34001]"
proof -
  have none: "item_ids_file no_files = None"
    by (simp add: no_files_def)
  have "main (shop\<lparr>universalis_marketable := reply 200 [100, 34000]\<rparr>) no_files
        = (Exit 1, no_files, [Call_get_all_marketable_item_ids])"
    using unusable_catalog_exits
      [of "shop\<lparr>universalis_marketable := reply 200 [100, 34000]\<rparr>" no_files
          "\<lparr>status_code = 200, json = [100, 34000]\<rparr>"] none
    by (simp add: reply_def)
  moreover have "Wrote Item_ids_file \<in> set (events (main (shop\<lparr>universalis_marketable := reply 200 [100, 34001, 3]\<rparr>) no_files))
     \<and> item_ids_file (files_after (main (shop\<lparr>universalis_marketable := reply 200 [100, 34001, 3]\<rparr>) no_files))
       = Some [34001]"
    using unusable_catalog_exits
      [of "shop\<lparr>universalis_marketable := reply 200 [100, 34001, 3]\<rparr>" no_files
          "\<lparr>status_code = 200, json = [100, 34001, 3]\<rparr>"] none
    by (simp add: reply_def)
  ultimately show ?thesis using none by (simp add: reply_def)
qed

end
